theory Spec2Isabelle
  imports Main "HOL-Library.AList" "HOL-Library.Char_ord" "HOL-Library.List_Lexorder"
begin

section \<open>Data model of backend-app.ts\<close>

text \<open>
  The string enum \<^verbatim>\<open>PaymentNotificationType\<close>. \<open>type_value\<close> gives the string each
  member stands for at run time (and in the TEXT column \<^verbatim>\<open>notification_type\<close>);
  \<open>allTypes\<close> is \<^verbatim>\<open>Object.values(PaymentNotificationType)\<close>, in declaration order.
\<close>

datatype PaymentNotificationType = PaymentSuccess | PaymentFailure | PaymentRefund

fun type_value :: "PaymentNotificationType \<Rightarrow> string" where
  "type_value PaymentSuccess = ''payment_success''"
| "type_value PaymentFailure = ''payment_failure''"
| "type_value PaymentRefund = ''payment_refund''"

definition allTypes :: "PaymentNotificationType list" where
  "allTypes = [PaymentSuccess, PaymentFailure, PaymentRefund]"

record NotificationPreference =
  type :: PaymentNotificationType
  optedOut :: bool

text \<open>
  \<^verbatim>\<open>interface AuditLogEntry\<close>, one row of the table \<^verbatim>\<open>audit_logs\<close>. The field
  \<^verbatim>\<open>id\<close> is written \<open>id'\<close>; \<^verbatim>\<open>changed_at\<close> is a point on the clock of the database.
\<close>

record AuditLogEntry =
  id' :: string
  user_id :: string
  notification_type :: string
  old_opted_out :: bool
  new_opted_out :: bool
  changed_at :: nat
  ip_address :: "string option"
  user_agent :: "string option"

text \<open>
  The three tables of \<^verbatim>\<open>ensureDbSchema\<close>. A row of \<^verbatim>\<open>users\<close> is (id, email); a row of
  \<^verbatim>\<open>notification_preferences\<close> is ((user_id, notification_type), opted_out), the
  first component being the primary key; \<^verbatim>\<open>audit_logs\<close> is kept in insertion order.
  User identifiers are values of the column type of \<^verbatim>\<open>users.id\<close>.
\<close>

record database =
  users :: "(string \<times> string) list"
  notification_preferences :: "((string \<times> string) \<times> bool) list"
  audit_logs :: "AuditLogEntry list"

text \<open>The constraints the schema declares: the two primary keys and the foreign key.\<close>

definition pk_preferences :: "database \<Rightarrow> bool" where
  "pk_preferences db = distinct (map fst (notification_preferences db))"

definition pk_audit :: "database \<Rightarrow> bool" where
  "pk_audit db = distinct (map id' (audit_logs db))"

definition fk_preferences :: "database \<Rightarrow> bool" where
  "fk_preferences db =
     list_all (\<lambda>row. fst (fst row) \<in> set (map fst (users db))) (notification_preferences db)"

section \<open>Storage faults and the environment of one call\<close>

text \<open>
  Every \<^verbatim>\<open>pool.connect()\<close> and \<^verbatim>\<open>client.query(...)\<close> may reject. Each such point of
  the three service functions has a label; the environment of a call says which of them
  reject (for any other reason than a constraint of the schema), what \<^verbatim>\<open>uuidv4()\<close>
  returns and what \<^verbatim>\<open>NOW()\<close> is.
\<close>

datatype step =
    PoolConnect | QueryBegin | QuerySelectOld | QueryUpsert | QueryInsertAudit
  | QueryCommit | QueryRollback
  | ViewConnect | ViewSelect
  | GateConnect | GateSelect

datatype error = StorageUnavailable step | ForeignKeyViolation | UniqueViolation

record env =
  fault :: "step \<Rightarrow> bool"
  uuidv4 :: string
  now :: nat

section \<open>The SQL statements\<close>

text \<open>
  \<^verbatim>\<open>SELECT opted_out FROM notification_preferences WHERE user_id = $1 AND notification_type = $2\<close>
\<close>

definition select_opted_out :: "string \<Rightarrow> string \<Rightarrow> database \<Rightarrow> bool list" where
  "select_opted_out userId ty db =
     map snd (filter (\<lambda>row. fst row = (userId, ty)) (notification_preferences db))"

text \<open>
  \<^verbatim>\<open>SELECT notification_type, opted_out FROM notification_preferences WHERE user_id = $1\<close>
\<close>

definition select_preferences :: "string \<Rightarrow> database \<Rightarrow> (string \<times> bool) list" where
  "select_preferences userId db =
     map (\<lambda>row. (snd (fst row), snd row))
       (filter (\<lambda>row. fst (fst row) = userId) (notification_preferences db))"

text \<open>
  \<^verbatim>\<open>INSERT INTO notification_preferences ... ON CONFLICT (user_id, notification_type)
  DO UPDATE SET opted_out = EXCLUDED.opted_out\<close>: a row with the key is updated in place;
  otherwise a row is inserted, which the foreign key on \<^verbatim>\<open>user_id\<close> refuses when
  \<^verbatim>\<open>users\<close> has no row with that id.
\<close>

definition upsert_preference :: "string \<Rightarrow> string \<Rightarrow> bool \<Rightarrow> database \<Rightarrow> error + database" where
  "upsert_preference userId ty v db =
     (if map_of (notification_preferences db) (userId, ty) = None
         \<and> userId \<notin> set (map fst (users db))
      then Inl ForeignKeyViolation
      else Inr (db\<lparr>notification_preferences :=
                     AList.update (userId, ty) v (notification_preferences db)\<rparr>))"

text \<open>
  \<^verbatim>\<open>INSERT INTO audit_logs (...) VALUES (...)\<close>: refused by the primary key when a row
  with the same id exists.
\<close>

definition insert_audit_log :: "AuditLogEntry \<Rightarrow> database \<Rightarrow> error + database" where
  "insert_audit_log entry db =
     (if id' entry \<in> set (map id' (audit_logs db))
      then Inl UniqueViolation
      else Inr (db\<lparr>audit_logs := audit_logs db @ [entry]\<rparr>))"

section \<open>Services\<close>

text \<open>
  \<^verbatim>\<open>getUserNotificationPreferences\<close>. The loop over the rows fills \<open>prefMap\<close>; the
  result maps \<open>allTypes\<close>, with \<^verbatim>\<open>prefMap[type] ?? false\<close>. Every service returns
  its result together with the database it leaves behind.
\<close>

definition prefMap_of :: "(string \<times> bool) list \<Rightarrow> (string \<rightharpoonup> bool)" where
  "prefMap_of rows = fold (\<lambda>row m. m(fst row \<mapsto> snd row)) rows Map.empty"

definition getUserNotificationPreferences ::
  "env \<Rightarrow> string \<Rightarrow> database \<Rightarrow> (error + NotificationPreference list) \<times> database" where
  "getUserNotificationPreferences e userId db =
     (if fault e ViewConnect then (Inl (StorageUnavailable ViewConnect), db)
      else if fault e ViewSelect then (Inl (StorageUnavailable ViewSelect), db)
      else
        let rows = select_preferences userId db;
            prefMap = prefMap_of rows
        in (Inr (map (\<lambda>ty. \<lparr>type = ty,
                              optedOut = (case prefMap (type_value ty) of
                                            Some b \<Rightarrow> b | None \<Rightarrow> False)\<rparr>) allTypes),
            db))"

text \<open>
  \<^verbatim>\<open>updateUserNotificationPreference\<close>, first the statements between \<^verbatim>\<open>BEGIN\<close> and
  \<^verbatim>\<open>COMMIT\<close>. They work on the transaction's own copy of the database, which starts
  as the committed one; the result is \<open>Inr\<close> of the copy that \<^verbatim>\<open>COMMIT\<close> installs, or
  \<open>Inl\<close> of the error thrown before anything was installed.
\<close>

definition oldOptedOut_of :: "bool list \<Rightarrow> bool" where
  "oldOptedOut_of oldRows = (case oldRows of [] \<Rightarrow> False | r # _ \<Rightarrow> r)"

definition new_audit_entry ::
  "env \<Rightarrow> string \<Rightarrow> PaymentNotificationType \<Rightarrow> bool \<Rightarrow> bool \<Rightarrow> string option \<Rightarrow> string option
     \<Rightarrow> AuditLogEntry" where
  "new_audit_entry e userId ty oldOptedOut newOptedOut ipAddress userAgent =
     \<lparr>id' = uuidv4 e, user_id = userId, notification_type = type_value ty,
      old_opted_out = oldOptedOut, new_opted_out = newOptedOut, changed_at = now e,
      ip_address = ipAddress, user_agent = userAgent\<rparr>"

definition commit :: "env \<Rightarrow> database \<Rightarrow> error + database" where
  "commit e w = (if fault e QueryCommit then Inl (StorageUnavailable QueryCommit) else Inr w)"

definition update_transaction ::
  "env \<Rightarrow> string \<Rightarrow> PaymentNotificationType \<Rightarrow> bool \<Rightarrow> string option \<Rightarrow> string option
     \<Rightarrow> database \<Rightarrow> error + database" where
  "update_transaction e userId ty newOptedOut ipAddress userAgent db =
     (if fault e QueryBegin then Inl (StorageUnavailable QueryBegin)
      else if fault e QuerySelectOld then Inl (StorageUnavailable QuerySelectOld)
      else
        let oldOptedOut = oldOptedOut_of (select_opted_out userId (type_value ty) db) in
        if oldOptedOut \<noteq> newOptedOut then
          (if fault e QueryUpsert then Inl (StorageUnavailable QueryUpsert)
           else case upsert_preference userId (type_value ty) newOptedOut db of
               Inl err \<Rightarrow> Inl err
             | Inr w \<Rightarrow>
                 if fault e QueryInsertAudit then Inl (StorageUnavailable QueryInsertAudit)
                 else (case insert_audit_log
                         (new_audit_entry e userId ty oldOptedOut newOptedOut ipAddress userAgent) w of
                      Inl err \<Rightarrow> Inl err
                    | Inr w' \<Rightarrow> commit e w'))
        else commit e db)"

text \<open>
  The \<^verbatim>\<open>catch\<close> block: \<^verbatim>\<open>ROLLBACK\<close>, then the error is thrown again; when the
  \<^verbatim>\<open>ROLLBACK\<close> itself rejects, its error is the one that leaves the function. Either way
  the open transaction is discarded.
\<close>

definition rollback_and_throw :: "env \<Rightarrow> error \<Rightarrow> error" where
  "rollback_and_throw e err =
     (if fault e QueryRollback then StorageUnavailable QueryRollback else err)"

text \<open>
  The whole function: \<^verbatim>\<open>pool.connect()\<close> outside the \<^verbatim>\<open>try\<close>; inside it the
  transaction and, after \<^verbatim>\<open>COMMIT\<close>, the call of \<^verbatim>\<open>getUserNotificationPreferences\<close>,
  whose error also reaches the \<^verbatim>\<open>catch\<close> block (where \<^verbatim>\<open>ROLLBACK\<close> then finds
  nothing to undo).
\<close>

definition updateUserNotificationPreference ::
  "env \<Rightarrow> string \<Rightarrow> PaymentNotificationType \<Rightarrow> bool \<Rightarrow> string option \<Rightarrow> string option
     \<Rightarrow> database \<Rightarrow> (error + NotificationPreference list) \<times> database" where
  "updateUserNotificationPreference e userId ty newOptedOut ipAddress userAgent db =
     (if fault e PoolConnect then (Inl (StorageUnavailable PoolConnect), db)
      else case update_transaction e userId ty newOptedOut ipAddress userAgent db of
          Inl err \<Rightarrow> (Inl (rollback_and_throw e err), db)
        | Inr w \<Rightarrow>
            (case getUserNotificationPreferences e userId w of
               (Inl err, w') \<Rightarrow> (Inl (rollback_and_throw e err), w')
             | (Inr preferences, w') \<Rightarrow> (Inr preferences, w')))"

text \<open>\<^verbatim>\<open>shouldSendNotification\<close>, the gate of the payment event pipeline.\<close>

definition shouldSendNotification ::
  "env \<Rightarrow> string \<Rightarrow> PaymentNotificationType \<Rightarrow> database \<Rightarrow> (error + bool) \<times> database" where
  "shouldSendNotification e userId ty db =
     (if fault e GateConnect then (Inl (StorageUnavailable GateConnect), db)
      else if fault e GateSelect then (Inl (StorageUnavailable GateSelect), db)
      else
        (case select_opted_out userId (type_value ty) db of
           [] \<Rightarrow> (Inr True, db)
         | r # _ \<Rightarrow> (Inr (\<not> r), db)))"

section \<open>The controller of PUT /notification-preferences\<close>

text \<open>
  The two fields the handler reads from \<^verbatim>\<open>req.body\<close> are arbitrary JSON values
  (\<open>JUndefined\<close> for a missing field; numbers are kept as integers). \<open>falsy\<close> is
  \<^verbatim>\<open>!type\<close>, \<open>includes_type\<close> is
  \<^verbatim>\<open>Object.values(PaymentNotificationType).includes(type)\<close> and \<open>is_boolean\<close> is
  \<^verbatim>\<open>typeof optedOut === 'boolean'\<close>.
\<close>

datatype json =
    JUndefined | JNull | JBool bool | JNumber int | JString string
  | JArray "json list" | JObject "(string \<times> json) list"

fun falsy :: "json \<Rightarrow> bool" where
  "falsy JUndefined = True"
| "falsy JNull = True"
| "falsy (JBool b) = (\<not> b)"
| "falsy (JNumber n) = (n = 0)"
| "falsy (JString s) = (s = [])"
| "falsy (JArray xs) = False"
| "falsy (JObject kvs) = False"

fun includes_type :: "json \<Rightarrow> bool" where
  "includes_type (JString s) = (s \<in> set (map type_value allTypes))"
| "includes_type j = False"

fun is_boolean :: "json \<Rightarrow> bool" where
  "is_boolean (JBool b) = True"
| "is_boolean j = False"

text \<open>
  The source passes the validated values on as they are. Here they change type: the
  two functions below read a validated value at its TypeScript type, and are only
  applied behind the validation.
\<close>

fun as_type :: "json \<Rightarrow> PaymentNotificationType" where
  "as_type j =
     (if j = JString (type_value PaymentSuccess) then PaymentSuccess
      else if j = JString (type_value PaymentFailure) then PaymentFailure
      else PaymentRefund)"

fun as_boolean :: "json \<Rightarrow> bool" where
  "as_boolean (JBool b) = b"
| "as_boolean j = False"

record request =
  req_user :: string
  req_type :: json
  req_optedOut :: json
  req_ip :: "string option"
  req_user_agent :: "string option"

datatype response =
    Status200 "NotificationPreference list"
  | Status400 string
  | NextError error

text \<open>\<^verbatim>\<open>req.headers['user-agent'] || null\<close>: an empty header counts as none.\<close>

definition or_null :: "string option \<Rightarrow> string option" where
  "or_null h = (case h of None \<Rightarrow> None | Some s \<Rightarrow> if s = [] then None else Some s)"

definition updateNotificationPreferenceHandler ::
  "env \<Rightarrow> request \<Rightarrow> database \<Rightarrow> response \<times> database" where
  "updateNotificationPreferenceHandler e req db =
     (if falsy (req_type req) \<or> \<not> includes_type (req_type req)
         \<or> \<not> is_boolean (req_optedOut req)
      then (Status400 ''Malformed input: Invalid notification type or optedOut value.'', db)
      else
        (case updateUserNotificationPreference e (req_user req) (as_type (req_type req))
                (as_boolean (req_optedOut req)) (req_ip req) (or_null (req_user_agent req)) db of
           (Inr updatedPreferences, db') \<Rightarrow> (Status200 updatedPreferences, db')
         | (Inl err, db') \<Rightarrow> (NextError err, db')))"

section \<open>Sequences of calls\<close>

text \<open>
  One call of \<^verbatim>\<open>updateUserNotificationPreference\<close> with its arguments and its
  environment, and a sequence of such calls run one after the other.
\<close>

record call =
  call_env :: env
  call_user :: string
  call_type :: PaymentNotificationType
  call_optedOut :: bool
  call_ip :: "string option"
  call_agent :: "string option"

definition perform :: "call \<Rightarrow> database \<Rightarrow> (error + NotificationPreference list) \<times> database" where
  "perform c db =
     updateUserNotificationPreference (call_env c) (call_user c) (call_type c)
       (call_optedOut c) (call_ip c) (call_agent c) db"

fun run_calls :: "call list \<Rightarrow> database \<Rightarrow> database" where
  "run_calls [] db = db"
| "run_calls (c # cs) db = run_calls cs (snd (perform c db))"

text \<open>A call has committed when it got its connection and its transaction reached the end of \<^verbatim>\<open>COMMIT\<close>.\<close>

definition committed :: "call \<Rightarrow> database \<Rightarrow> bool" where
  "committed c db =
     (\<not> fault (call_env c) PoolConnect \<and>
      \<not> isl (update_transaction (call_env c) (call_user c) (call_type c)
               (call_optedOut c) (call_ip c) (call_agent c) db))"

text \<open>
  The value in effect for a user and a category: the stored one, \<open>False\<close> without a
  record (the expression the update evaluates into \<^verbatim>\<open>oldOptedOut\<close>).
\<close>

definition stored_opted_out :: "database \<Rightarrow> string \<Rightarrow> PaymentNotificationType \<Rightarrow> bool" where
  "stored_opted_out db userId ty = oldOptedOut_of (select_opted_out userId (type_value ty) db)"

text \<open>The audit entries of a user and a category, and their (old, new) pairs.\<close>

definition audit_for :: "string \<Rightarrow> PaymentNotificationType \<Rightarrow> database \<Rightarrow> AuditLogEntry list" where
  "audit_for userId ty db =
     filter (\<lambda>a. user_id a = userId \<and> notification_type a = type_value ty) (audit_logs db)"

definition transitions :: "AuditLogEntry list \<Rightarrow> (bool \<times> bool) list" where
  "transitions entries = map (\<lambda>a. (old_opted_out a, new_opted_out a)) entries"

text \<open>
  The calls of a sequence, for one user and category, whose requested value differs from
  the value in effect just before the call, as (old, new) pairs: first all such calls,
  then only those that committed.
\<close>

fun requested_changes ::
  "string \<Rightarrow> PaymentNotificationType \<Rightarrow> call list \<Rightarrow> database \<Rightarrow> (bool \<times> bool) list" where
  "requested_changes userId ty [] db = []"
| "requested_changes userId ty (c # cs) db =
     (if call_user c = userId \<and> call_type c = ty
         \<and> call_optedOut c \<noteq> stored_opted_out db userId ty
      then [(stored_opted_out db userId ty, call_optedOut c)] else [])
     @ requested_changes userId ty cs (snd (perform c db))"

fun committed_changes ::
  "string \<Rightarrow> PaymentNotificationType \<Rightarrow> call list \<Rightarrow> database \<Rightarrow> (bool \<times> bool) list" where
  "committed_changes userId ty [] db = []"
| "committed_changes userId ty (c # cs) db =
     (if call_user c = userId \<and> call_type c = ty \<and> committed c db
         \<and> call_optedOut c \<noteq> stored_opted_out db userId ty
      then [(stored_opted_out db userId ty, call_optedOut c)] else [])
     @ committed_changes userId ty cs (snd (perform c db))"

section \<open>Concrete data\<close>

text \<open>
  A user with a row in \<^verbatim>\<open>users\<close> and one without, identifiers as \<^verbatim>\<open>uuidv4()\<close>
  returns them, an environment in which no storage call rejects, and a few databases.
\<close>

definition alice :: string where
  "alice = ''6f1c2d3e-0a1b-4c2d-8e3f-0123456789ab''"

definition nobody :: string where
  "nobody = ''00000000-0000-4000-8000-000000000000''"

definition id_1 :: string where
  "id_1 = ''f47ac10b-58cc-4372-a567-0e02b2c3d479''"

definition id_2 :: string where
  "id_2 = ''1b9d6bcd-bbfd-4b2d-9b5d-ab8dfbbd4bed''"

definition calm :: "string \<Rightarrow> nat \<Rightarrow> env" where
  "calm i t = \<lparr>fault = (\<lambda>s. False), uuidv4 = i, now = t\<rparr>"

definition db_alice :: database where
  "db_alice = \<lparr>users = [(alice, ''alice@example.com'')], notification_preferences = [],
               audit_logs = []\<rparr>"

definition db_alice_out :: database where
  "db_alice_out =
     \<lparr>users = [(alice, ''alice@example.com'')],
      notification_preferences = [((alice, ''payment_success''), True)],
      audit_logs = [\<lparr>id' = id_1, user_id = alice, notification_type = ''payment_success'',
                     old_opted_out = False, new_opted_out = True, changed_at = 10,
                     ip_address = None, user_agent = None\<rparr>]\<rparr>"

definition db_alice_two :: database where
  "db_alice_two =
     \<lparr>users = [(alice, ''alice@example.com'')],
      notification_preferences = [((alice, ''payment_failure''), True),
                                  ((alice, ''payment_refund''), False)],
      audit_logs = []\<rparr>"

definition stormy :: env where
  "stormy = \<lparr>fault = (\<lambda>s. True), uuidv4 = id_1, now = 0\<rparr>"

definition call_of :: "string \<Rightarrow> nat \<Rightarrow> string \<Rightarrow> PaymentNotificationType \<Rightarrow> bool \<Rightarrow> call" where
  "call_of i t u ty v =
     \<lparr>call_env = calm i t, call_user = u, call_type = ty, call_optedOut = v,
      call_ip = None, call_agent = None\<rparr>"

definition scenario_E :: request where
  "scenario_E = \<lparr>req_user = alice, req_type = JString ''unknown_category'',
                 req_optedOut = JBool True, req_ip = None, req_user_agent = None\<rparr>"

section \<open>Basic facts\<close>

lemmas fixture_defs = alice_def nobody_def id_1_def id_2_def calm_def call_of_def
  db_alice_def db_alice_out_def

lemmas service_defs = updateUserNotificationPreference_def update_transaction_def
  getUserNotificationPreferences_def
  select_opted_out_def select_preferences_def
  upsert_preference_def insert_audit_log_def new_audit_entry_def commit_def
  rollback_and_throw_def oldOptedOut_of_def prefMap_of_def allTypes_def Let_def

lemmas run_defs = perform_def committed_def stored_opted_out_def

lemma type_value_inj: "type_value a = type_value b \<longleftrightarrow> a = b"
  by (cases a; cases b) simp_all

lemma oldOptedOut_map_of:
  "oldOptedOut_of (map snd (filter (\<lambda>row. fst row = k) al)) =
     (case map_of al k of Some b \<Rightarrow> b | None \<Rightarrow> False)"
  by (induction al) (auto simp: oldOptedOut_of_def)

lemma stored_map_of:
  "stored_opted_out db userId ty =
     (case map_of (notification_preferences db) (userId, type_value ty) of
        Some b \<Rightarrow> b | None \<Rightarrow> False)"
  by (simp add: stored_opted_out_def select_opted_out_def oldOptedOut_map_of)

lemma fold_upd_lookup:
  "distinct (map fst rows) \<Longrightarrow>
   fold (\<lambda>row m. m(fst row \<mapsto> snd row)) rows m0 k =
     (case map_of rows k of Some v \<Rightarrow> Some v | None \<Rightarrow> m0 k)"
proof (induction rows arbitrary: m0)
  case Nil
  then show ?case by simp
next
  case (Cons r rows)
  then have "map_of rows (fst r) = None"
    by (simp add: map_of_eq_None_iff)
  with Cons show ?case
    by (cases r) (auto split: option.splits)
qed

lemma select_preferences_map_of:
  "map_of (map (\<lambda>row. (snd (fst row), snd row)) (filter (\<lambda>row. fst (fst row) = u) al)) t
     = map_of al (u, t)"
  by (induction al) auto

lemma select_preferences_distinct:
  "distinct (map fst al) \<Longrightarrow>
   distinct (map fst (map (\<lambda>row. (snd (fst row), snd row)) (filter (\<lambda>row. fst (fst row) = u) al)))"
  by (induction al) (auto simp: image_iff)

lemma prefMap_lookup:
  "pk_preferences db \<Longrightarrow>
   prefMap_of (select_preferences userId db) t = map_of (notification_preferences db) (userId, t)"
  unfolding prefMap_of_def pk_preferences_def select_preferences_def
  by (simp add: fold_upd_lookup[OF select_preferences_distinct] select_preferences_map_of
        split: option.splits)

lemma update_filter_others:
  "filter (\<lambda>row. fst row \<noteq> k) (AList.update k v al) = filter (\<lambda>row. fst row \<noteq> k) al"
  by (induction al) auto

lemma update_changes:
  "(case map_of al k of Some b \<Rightarrow> b | None \<Rightarrow> False) \<noteq> v \<Longrightarrow> AList.update k v al \<noteq> al"
proof
  assume a: "(case map_of al k of Some b \<Rightarrow> b | None \<Rightarrow> False) \<noteq> v"
    and b: "AList.update k v al = al"
  have "map_of (AList.update k v al) k = Some v" by (simp add: update_conv')
  with b have "map_of al k = Some v" by simp
  with a show False by simp
qed

text \<open>What a transaction that reaches the end of \<^verbatim>\<open>COMMIT\<close> installs.\<close>

lemma update_transaction_Inr:
  assumes "update_transaction e u ty v ip ua db = Inr w"
  shows "(stored_opted_out db u ty = v \<and> w = db) \<or>
         (stored_opted_out db u ty \<noteq> v \<and>
          uuidv4 e \<notin> set (map id' (audit_logs db)) \<and>
          w = db\<lparr>notification_preferences :=
                    AList.update (u, type_value ty) v (notification_preferences db),
                 audit_logs := audit_logs db @
                    [new_audit_entry e u ty (stored_opted_out db u ty) v ip ua]\<rparr>)"
  using assms
  by (auto simp: update_transaction_def stored_opted_out_def Let_def commit_def
        upsert_preference_def insert_audit_log_def new_audit_entry_def
        split: if_splits sum.splits)

lemma getUserNotificationPreferences_snd: "snd (getUserNotificationPreferences e u db) = db"
  by (simp add: getUserNotificationPreferences_def Let_def)

lemma getUserNotificationPreferences_same:
  "getUserNotificationPreferences e u db = (r, d) \<Longrightarrow> d = db"
  using getUserNotificationPreferences_snd[of e u db] by simp

text \<open>The database a call leaves behind is the one its transaction installed, if any.\<close>

lemma update_snd:
  "snd (updateUserNotificationPreference e u ty v ip ua db) =
     (if fault e PoolConnect then db
      else case update_transaction e u ty v ip ua db of Inl err \<Rightarrow> db | Inr w \<Rightarrow> w)"
  by (auto simp: updateUserNotificationPreference_def split: sum.splits prod.splits
        dest: getUserNotificationPreferences_same)

text \<open>The view of the read path, for a table that respects its primary key.\<close>

lemma view_of_pk:
  "pk_preferences db \<Longrightarrow>
   getUserNotificationPreferences e userId db =
     (if fault e ViewConnect then Inl (StorageUnavailable ViewConnect)
      else if fault e ViewSelect then Inl (StorageUnavailable ViewSelect)
      else Inr (map (\<lambda>ty. \<lparr>type = ty, optedOut = stored_opted_out db userId ty\<rparr>) allTypes),
      db)"
  by (simp add: getUserNotificationPreferences_def Let_def prefMap_lookup stored_map_of)

lemma allTypes_complete: "ty \<in> set allTypes"
  by (cases ty) (simp_all add: allTypes_def)

lemma update_transaction_pk:
  "pk_preferences db \<Longrightarrow> update_transaction e u ty v ip ua db = Inr w \<Longrightarrow> pk_preferences w"
  by (drule update_transaction_Inr) (auto simp: pk_preferences_def distinct_update)

lemma update_transaction_stored:
  "update_transaction e u ty v ip ua db = Inr w \<Longrightarrow> stored_opted_out w u ty = v"
  by (drule update_transaction_Inr) (auto simp: stored_map_of update_conv')

lemma update_Inr:
  assumes "updateUserNotificationPreference e u ty v ip ua db = (Inr view, db')"
  shows "update_transaction e u ty v ip ua db = Inr db' \<and>
         getUserNotificationPreferences e u db' = (Inr view, db')"
  using assms
  by (auto simp: updateUserNotificationPreference_def split: if_splits sum.splits prod.splits
        dest: getUserNotificationPreferences_same)

lemma update_noop:
  "stored_opted_out db u ty = v \<Longrightarrow> snd (updateUserNotificationPreference e u ty v ip ua db) = db"
  by (auto simp: update_snd update_transaction_def stored_opted_out_def Let_def commit_def
        split: sum.splits if_splits)

lemma update_rolled_back:
  "isl (update_transaction e u ty v ip ua db) \<Longrightarrow>
   snd (updateUserNotificationPreference e u ty v ip ua db) = db"
  by (auto simp: update_snd split: sum.splits)

lemma update_committed_stored:
  assumes "\<not> fault e PoolConnect" "\<not> isl (update_transaction e u ty v ip ua db)"
  shows "stored_opted_out (snd (updateUserNotificationPreference e u ty v ip ua db)) u ty = v"
proof -
  from assms(2) obtain w where w: "update_transaction e u ty v ip ua db = Inr w"
    by (cases "update_transaction e u ty v ip ua db") auto
  with assms(1) have "snd (updateUserNotificationPreference e u ty v ip ua db) = w"
    by (simp add: update_snd)
  with update_transaction_stored[OF w] show ?thesis by simp
qed

lemma upsert_refused:
  "stored_opted_out db u ty \<noteq> v \<Longrightarrow> isl (upsert_preference u (type_value ty) v db) \<Longrightarrow>
   isl (update_transaction e u ty v ip ua db)"
  by (auto simp: update_transaction_def stored_opted_out_def Let_def split: sum.splits)

lemma calm_commits:
  "\<forall>s. \<not> fault e s \<Longrightarrow> uuidv4 e \<notin> set (map id' (audit_logs db)) \<Longrightarrow>
   \<not> isl (upsert_preference u (type_value ty) v db) \<Longrightarrow>
   \<not> isl (update_transaction e u ty v ip ua db)"
  by (auto simp: update_transaction_def Let_def commit_def insert_audit_log_def
        new_audit_entry_def upsert_preference_def split: sum.splits if_splits)

text \<open>A validated body is read at its type without change.\<close>

lemma as_type_faithful: "includes_type j \<Longrightarrow> j = JString (type_value (as_type j))"
  by (cases j) (auto simp: allTypes_def)

lemma as_boolean_faithful: "is_boolean j \<Longrightarrow> j = JBool (as_boolean j)"
  by (cases j) auto

lemma no_user_no_rows:
  assumes "userId \<notin> set (map fst (users db))" "fk_preferences db"
  shows "map_of (notification_preferences db) (userId, t) = None"
    and "select_preferences userId db = []"
proof -
  from assms have *: "\<forall>row \<in> set (notification_preferences db). fst (fst row) \<noteq> userId"
    by (auto simp: fk_preferences_def list_all_iff)
  then show "map_of (notification_preferences db) (userId, t) = None"
    by (force simp: map_of_eq_None_iff)
  from * show "select_preferences userId db = []"
    by (auto simp: select_preferences_def filter_empty_conv)
qed

text \<open>One call of a sequence: what it adds to the audit log and to the stored value.\<close>

lemma perform_snd:
  "snd (perform c db) =
     (if committed c db
      then (case update_transaction (call_env c) (call_user c) (call_type c) (call_optedOut c)
                   (call_ip c) (call_agent c) db of Inl err \<Rightarrow> db | Inr w \<Rightarrow> w)
      else db)"
  by (auto simp: perform_def committed_def update_snd split: sum.splits)

lemma committed_cases:
  assumes "committed c db"
  shows "(stored_opted_out db (call_user c) (call_type c) = call_optedOut c \<and> snd (perform c db) = db) \<or>
         (stored_opted_out db (call_user c) (call_type c) \<noteq> call_optedOut c \<and>
          uuidv4 (call_env c) \<notin> set (map id' (audit_logs db)) \<and>
          snd (perform c db) =
            db\<lparr>notification_preferences :=
                  AList.update (call_user c, type_value (call_type c)) (call_optedOut c)
                    (notification_preferences db),
               audit_logs := audit_logs db @
                  [new_audit_entry (call_env c) (call_user c) (call_type c)
                     (stored_opted_out db (call_user c) (call_type c)) (call_optedOut c)
                     (call_ip c) (call_agent c)]\<rparr>)"
proof -
  from assms obtain w where
    w: "update_transaction (call_env c) (call_user c) (call_type c) (call_optedOut c)
          (call_ip c) (call_agent c) db = Inr w"
    by (cases "update_transaction (call_env c) (call_user c) (call_type c) (call_optedOut c)
          (call_ip c) (call_agent c) db") (auto simp: committed_def)
  with assms have "snd (perform c db) = w" by (simp add: perform_snd)
  with update_transaction_Inr[OF w] show ?thesis by auto
qed

lemma not_committed: "\<not> committed c db \<Longrightarrow> snd (perform c db) = db"
  by (simp add: perform_snd)

lemma step_transitions:
  "transitions (audit_for userId ty (snd (perform c db))) =
     transitions (audit_for userId ty db) @
     (if call_user c = userId \<and> call_type c = ty \<and> committed c db
         \<and> call_optedOut c \<noteq> stored_opted_out db userId ty
      then [(stored_opted_out db userId ty, call_optedOut c)] else [])"
proof (cases "committed c db")
  case True
  from committed_cases[OF True] show ?thesis
    by (auto simp: True transitions_def audit_for_def new_audit_entry_def type_value_inj)
next
  case False
  then show ?thesis by (simp add: not_committed)
qed

lemma step_stored:
  "stored_opted_out (snd (perform c db)) userId ty =
     (if call_user c = userId \<and> call_type c = ty \<and> committed c db
         \<and> call_optedOut c \<noteq> stored_opted_out db userId ty
      then call_optedOut c else stored_opted_out db userId ty)"
proof (cases "committed c db")
  case True
  from committed_cases[OF True] show ?thesis
    by (auto simp: True stored_map_of update_conv' type_value_inj split: if_splits)
next
  case False
  then show ?thesis by (simp add: not_committed)
qed

lemma stored_after_run:
  "stored_opted_out (run_calls cs db) userId ty =
     (if committed_changes userId ty cs db = [] then stored_opted_out db userId ty
      else snd (last (committed_changes userId ty cs db)))"
proof (induction cs arbitrary: db)
  case Nil
  show ?case by simp
next
  case (Cons c cs)
  show ?case
    unfolding run_calls.simps committed_changes.simps Cons.IH step_stored
    by simp
qed

section \<open>The update is atomic\<close>

text \<open>
  Claim C1. Whatever rejects and wherever, a call of
  \<^verbatim>\<open>updateUserNotificationPreference\<close> leaves the database either as it was, or with
  both the upserted preference and its audit entry: the preference table differs from
  before exactly when the audit log does, and a call whose transaction did not reach
  the end of \<^verbatim>\<open>COMMIT\<close> changes nothing.
\<close>

theorem C1_update_atomic:
  "(snd (updateUserNotificationPreference e userId ty v ip ua db) = db \<or>
    (stored_opted_out db userId ty \<noteq> v \<and>
     snd (updateUserNotificationPreference e userId ty v ip ua db) =
       db\<lparr>notification_preferences :=
             AList.update (userId, type_value ty) v (notification_preferences db),
          audit_logs := audit_logs db @
             [new_audit_entry e userId ty (stored_opted_out db userId ty) v ip ua]\<rparr>)) \<and>
   (notification_preferences (snd (updateUserNotificationPreference e userId ty v ip ua db))
      = notification_preferences db
    \<longleftrightarrow> audit_logs (snd (updateUserNotificationPreference e userId ty v ip ua db))
      = audit_logs db) \<and>
   (fault e PoolConnect \<or> isl (update_transaction e userId ty v ip ua db) \<longrightarrow>
      snd (updateUserNotificationPreference e userId ty v ip ua db) = db)"
proof (cases "\<not> fault e PoolConnect \<and> \<not> isl (update_transaction e userId ty v ip ua db)")
  case True
  then obtain w where w: "update_transaction e userId ty v ip ua db = Inr w"
    by (cases "update_transaction e userId ty v ip ua db") auto
  with True have s: "snd (updateUserNotificationPreference e userId ty v ip ua db) = w"
    by (simp add: update_snd)
  from update_transaction_Inr[OF w] show ?thesis
  proof
    assume "stored_opted_out db userId ty = v \<and> w = db"
    with True show ?thesis unfolding s by simp
  next
    assume a: "stored_opted_out db userId ty \<noteq> v \<and>
          uuidv4 e \<notin> set (map id' (audit_logs db)) \<and>
          w = db\<lparr>notification_preferences :=
                    AList.update (userId, type_value ty) v (notification_preferences db),
                 audit_logs := audit_logs db @
                    [new_audit_entry e userId ty (stored_opted_out db userId ty) v ip ua]\<rparr>"
    then have "AList.update (userId, type_value ty) v (notification_preferences db)
                 \<noteq> notification_preferences db"
      by (intro update_changes) (simp add: stored_map_of)
    with a True show ?thesis unfolding s by simp
  qed
next
  case False
  then have "snd (updateUserNotificationPreference e userId ty v ip ua db) = db"
    by (auto simp: update_snd split: sum.splits)
  then show ?thesis by simp
qed

text \<open>
  An instance: the identifier drawn for the audit entry is already taken, so the insert
  into \<^verbatim>\<open>audit_logs\<close> fails after the upsert has run; the upsert is not kept.
\<close>

theorem C1_update_atomic_witness:
  "isl (update_transaction (calm id_1 20) alice PaymentFailure True None None db_alice_out) \<and>
   snd (updateUserNotificationPreference (calm id_1 20) alice PaymentFailure True None None
          db_alice_out) = db_alice_out"
proof -
  have h: "isl (update_transaction (calm id_1 20) alice PaymentFailure True None None db_alice_out)"
    by (simp add: fixture_defs service_defs)
  with C1_update_atomic[of "calm id_1 20" alice PaymentFailure True None None db_alice_out]
  show ?thesis by blast
qed

section \<open>What a call may touch\<close>

text \<open>
  Claim C9. A call for (userId, ty) leaves \<^verbatim>\<open>users\<close> alone, leaves every preference row
  with another key as it is and where it is, and leaves the audit log either as it was
  or longer by exactly one entry at its end.
\<close>

theorem C9_update_frame:
  "users (snd (updateUserNotificationPreference e userId ty v ip ua db)) = users db \<and>
   filter (\<lambda>row. fst row \<noteq> (userId, type_value ty))
       (notification_preferences (snd (updateUserNotificationPreference e userId ty v ip ua db)))
     = filter (\<lambda>row. fst row \<noteq> (userId, type_value ty)) (notification_preferences db) \<and>
   (audit_logs (snd (updateUserNotificationPreference e userId ty v ip ua db)) = audit_logs db \<or>
    audit_logs (snd (updateUserNotificationPreference e userId ty v ip ua db))
      = audit_logs db @ [new_audit_entry e userId ty (stored_opted_out db userId ty) v ip ua])"
proof (cases "\<not> fault e PoolConnect \<and> \<not> isl (update_transaction e userId ty v ip ua db)")
  case True
  then obtain w where w: "update_transaction e userId ty v ip ua db = Inr w"
    by (cases "update_transaction e userId ty v ip ua db") auto
  with True have s: "snd (updateUserNotificationPreference e userId ty v ip ua db) = w"
    by (simp add: update_snd)
  from update_transaction_Inr[OF w] show ?thesis
    unfolding s by (auto simp: update_filter_others)
next
  case False
  then have "snd (updateUserNotificationPreference e userId ty v ip ua db) = db"
    by (auto simp: update_snd split: sum.splits)
  then show ?thesis by simp
qed

text \<open>An instance: a second preference of a user who has one; the first row stays.\<close>

theorem C9_update_frame_witness:
  "filter (\<lambda>row. fst row \<noteq> (alice, type_value PaymentFailure))
      (notification_preferences (snd (updateUserNotificationPreference (calm id_2 20) alice
          PaymentFailure True None None db_alice_out)))
     = [((alice, ''payment_success''), True)]"
  using C9_update_frame[of "calm id_2 20" alice PaymentFailure True None None db_alice_out]
  by (simp add: fixture_defs)

section \<open>Writing the value that is already in effect\<close>

text \<open>
  Claim C3. When the value in effect for (userId, ty) is already v (no record counting
  as \<open>False\<close>), the call changes nothing in any table, whatever rejects; when no
  storage call rejects it returns what the read path returns on the unchanged database,
  and that is a view, not an error. Next, two calls in a row with the same value: the
  second leaves the database as the first left it (so it appends no audit entry) when the
  first returned a view, and also when the first met no rejected storage call and drew
  an identifier that was free.
\<close>

theorem C3_noop:
  "(stored_opted_out db userId ty = v \<longrightarrow>
      snd (updateUserNotificationPreference e userId ty v ip ua db) = db \<and>
      ((\<forall>s. \<not> fault e s) \<longrightarrow>
         updateUserNotificationPreference e userId ty v ip ua db
           = getUserNotificationPreferences e userId db \<and>
         \<not> isl (fst (getUserNotificationPreferences e userId db)))) \<and>
   (\<not> isl (fst (updateUserNotificationPreference e userId ty v ip ua db)) \<or>
    (\<forall>s. \<not> fault e s) \<and> uuidv4 e \<notin> set (map id' (audit_logs db)) \<longrightarrow>
      snd (updateUserNotificationPreference e' userId ty v ip' ua'
             (snd (updateUserNotificationPreference e userId ty v ip ua db)))
        = snd (updateUserNotificationPreference e userId ty v ip ua db))"
proof -
  let ?first = "updateUserNotificationPreference e userId ty v ip ua db"
  have same: "?first = getUserNotificationPreferences e userId db \<and>
         \<not> isl (fst (getUserNotificationPreferences e userId db))"
    if "stored_opted_out db userId ty = v" "\<forall>s. \<not> fault e s"
    using that
    by (simp add: updateUserNotificationPreference_def update_transaction_def
          stored_opted_out_def Let_def commit_def getUserNotificationPreferences_def)
  have returned: "stored_opted_out (snd ?first) userId ty = v" if ok: "\<not> isl (fst ?first)"
  proof -
    from ok obtain view db' where r: "?first = (Inr view, db')"
      by (cases ?first; cases "fst ?first") auto
    from update_Inr[OF r] show ?thesis
      unfolding r by (auto dest: update_transaction_stored)
  qed
  have again: "snd (updateUserNotificationPreference e' userId ty v ip' ua' (snd ?first)) = snd ?first"
    if h: "\<not> isl (fst ?first) \<or> (\<forall>s. \<not> fault e s) \<and> uuidv4 e \<notin> set (map id' (audit_logs db))"
  proof (cases "stored_opted_out (snd ?first) userId ty = v")
    case True
    then show ?thesis by (rule update_noop)
  next
    case False
    with returned h have calm: "\<forall>s. \<not> fault e s"
      and fresh: "uuidv4 e \<notin> set (map id' (audit_logs db))" by auto
    from calm have conn: "\<not> fault e PoolConnect" by simp
    from False conn have failed: "isl (update_transaction e userId ty v ip ua db)"
      using update_committed_stored[of e userId ty v ip ua db] by blast
    then have unchanged: "snd ?first = db" by (rule update_rolled_back)
    with False have diff: "stored_opted_out db userId ty \<noteq> v" by simp
    from failed calm fresh have "isl (upsert_preference userId (type_value ty) v db)"
      using calm_commits[of e db userId ty v ip ua] by blast
    with diff have "isl (update_transaction e' userId ty v ip' ua' db)"
      by (rule upsert_refused)
    then show ?thesis unfolding unchanged by (rule update_rolled_back)
  qed
  from update_noop same again show ?thesis by blast
qed

text \<open>
  An instance: the user is opted out of \<^verbatim>\<open>payment_success\<close> and asks for it again,
  twice.
\<close>

theorem C3_noop_witness:
  "stored_opted_out db_alice_out alice PaymentSuccess = True \<and>
   (\<forall>s. \<not> fault (calm id_2 11) s) \<and>
   updateUserNotificationPreference (calm id_2 11) alice PaymentSuccess True None None db_alice_out
     = (Inr [\<lparr>type = PaymentSuccess, optedOut = True\<rparr>,
             \<lparr>type = PaymentFailure, optedOut = False\<rparr>,
             \<lparr>type = PaymentRefund, optedOut = False\<rparr>], db_alice_out) \<and>
   snd (updateUserNotificationPreference (calm id_1 12) alice PaymentSuccess True None None
          (snd (updateUserNotificationPreference (calm id_2 11) alice PaymentSuccess True None None
                  db_alice_out)))
     = db_alice_out"
proof -
  have a: "stored_opted_out db_alice_out alice PaymentSuccess = True"
    by (simp add: stored_opted_out_def fixture_defs service_defs)
  have b: "\<forall>s. \<not> fault (calm id_2 11) s" by (simp add: calm_def)
  have c: "getUserNotificationPreferences (calm id_2 11) alice db_alice_out
     = (Inr [\<lparr>type = PaymentSuccess, optedOut = True\<rparr>,
             \<lparr>type = PaymentFailure, optedOut = False\<rparr>,
             \<lparr>type = PaymentRefund, optedOut = False\<rparr>], db_alice_out)"
    by (simp add: fixture_defs service_defs)
  note inst = C3_noop[of db_alice_out alice PaymentSuccess True "calm id_2 11" None None
         "calm id_1 12" None None]
  from inst a b c have first:
    "updateUserNotificationPreference (calm id_2 11) alice PaymentSuccess True None None db_alice_out
     = (Inr [\<lparr>type = PaymentSuccess, optedOut = True\<rparr>,
             \<lparr>type = PaymentFailure, optedOut = False\<rparr>,
             \<lparr>type = PaymentRefund, optedOut = False\<rparr>], db_alice_out)"
    by simp
  then have ok: "\<not> isl (fst (updateUserNotificationPreference (calm id_2 11) alice PaymentSuccess
                              True None None db_alice_out))"
    by simp
  from inst ok have
    "snd (updateUserNotificationPreference (calm id_1 12) alice PaymentSuccess True None None
          (snd (updateUserNotificationPreference (calm id_2 11) alice PaymentSuccess True None None
                  db_alice_out)))
     = snd (updateUserNotificationPreference (calm id_2 11) alice PaymentSuccess True None None
              db_alice_out)"
    by blast
  with first a b show ?thesis by simp
qed

section \<open>The read path\<close>

text \<open>
  Claim C4. On a table that respects its primary key, \<^verbatim>\<open>getUserNotificationPreferences\<close>
  fails only when \<^verbatim>\<open>pool.connect()\<close> or its \<^verbatim>\<open>SELECT\<close> rejects; otherwise it returns
  one entry for each of \<^verbatim>\<open>payment_success\<close>, \<^verbatim>\<open>payment_failure\<close>, \<^verbatim>\<open>payment_refund\<close>,
  in this order, with the stored \<^verbatim>\<open>opted_out\<close> where (userId, category) has a row and
  \<open>False\<close> where it has none. For a user without any row it returns the three
  defaults.
\<close>

theorem C4_view:
  "(pk_preferences db \<longrightarrow>
      getUserNotificationPreferences e userId db =
        (if fault e ViewConnect then Inl (StorageUnavailable ViewConnect)
         else if fault e ViewSelect then Inl (StorageUnavailable ViewSelect)
         else Inr (map (\<lambda>ty. \<lparr>type = ty,
                        optedOut = (case map_of (notification_preferences db) (userId, type_value ty) of
                                      Some b \<Rightarrow> b | None \<Rightarrow> False)\<rparr>)
                     [PaymentSuccess, PaymentFailure, PaymentRefund]),
         db)) \<and>
   (select_preferences userId db = [] \<longrightarrow> \<not> fault e ViewConnect \<longrightarrow> \<not> fault e ViewSelect \<longrightarrow>
      getUserNotificationPreferences e userId db =
        (Inr [\<lparr>type = PaymentSuccess, optedOut = False\<rparr>,
              \<lparr>type = PaymentFailure, optedOut = False\<rparr>,
              \<lparr>type = PaymentRefund, optedOut = False\<rparr>], db))"
proof (intro conjI impI)
  assume "pk_preferences db"
  then show "getUserNotificationPreferences e userId db =
        (if fault e ViewConnect then Inl (StorageUnavailable ViewConnect)
         else if fault e ViewSelect then Inl (StorageUnavailable ViewSelect)
         else Inr (map (\<lambda>ty. \<lparr>type = ty,
                        optedOut = (case map_of (notification_preferences db) (userId, type_value ty) of
                                      Some b \<Rightarrow> b | None \<Rightarrow> False)\<rparr>)
                     [PaymentSuccess, PaymentFailure, PaymentRefund]),
         db)"
    by (simp add: getUserNotificationPreferences_def Let_def allTypes_def prefMap_lookup)
next
  assume "select_preferences userId db = []" "\<not> fault e ViewConnect" "\<not> fault e ViewSelect"
  then show "getUserNotificationPreferences e userId db =
        (Inr [\<lparr>type = PaymentSuccess, optedOut = False\<rparr>,
              \<lparr>type = PaymentFailure, optedOut = False\<rparr>,
              \<lparr>type = PaymentRefund, optedOut = False\<rparr>], db)"
    by (simp add: getUserNotificationPreferences_def Let_def allTypes_def prefMap_of_def)
qed

text \<open>An instance: a user with two rows, and a user with none, on the same table.\<close>

theorem C4_view_witness:
  "pk_preferences db_alice_two \<and>
   getUserNotificationPreferences (calm id_1 0) alice db_alice_two =
     (Inr [\<lparr>type = PaymentSuccess, optedOut = False\<rparr>,
           \<lparr>type = PaymentFailure, optedOut = True\<rparr>,
           \<lparr>type = PaymentRefund, optedOut = False\<rparr>], db_alice_two) \<and>
   select_preferences nobody db_alice_two = [] \<and>
   getUserNotificationPreferences (calm id_1 0) nobody db_alice_two =
     (Inr [\<lparr>type = PaymentSuccess, optedOut = False\<rparr>,
           \<lparr>type = PaymentFailure, optedOut = False\<rparr>,
           \<lparr>type = PaymentRefund, optedOut = False\<rparr>], db_alice_two)"
proof -
  have pk: "pk_preferences db_alice_two"
    by (simp add: pk_preferences_def db_alice_two_def fixture_defs)
  have none: "select_preferences nobody db_alice_two = []"
    by (simp add: select_preferences_def db_alice_two_def fixture_defs)
  have calm: "\<not> fault (calm id_1 0) ViewConnect" "\<not> fault (calm id_1 0) ViewSelect"
    by (simp_all add: calm_def)
  from C4_view[of db_alice_two "calm id_1 0" alice] pk calm
  have a: "getUserNotificationPreferences (calm id_1 0) alice db_alice_two =
     (Inr [\<lparr>type = PaymentSuccess, optedOut = False\<rparr>,
           \<lparr>type = PaymentFailure, optedOut = True\<rparr>,
           \<lparr>type = PaymentRefund, optedOut = False\<rparr>], db_alice_two)"
    by (simp add: db_alice_two_def fixture_defs)
  from C4_view[of db_alice_two "calm id_1 0" nobody] none calm
  have b: "getUserNotificationPreferences (calm id_1 0) nobody db_alice_two =
     (Inr [\<lparr>type = PaymentSuccess, optedOut = False\<rparr>,
           \<lparr>type = PaymentFailure, optedOut = False\<rparr>,
           \<lparr>type = PaymentRefund, optedOut = False\<rparr>], db_alice_two)"
    by blast
  from pk a none b show ?thesis by blast
qed

section \<open>What a successful update returns\<close>

text \<open>
  Claim C7. When a call of \<^verbatim>\<open>updateUserNotificationPreference\<close> on a table that
  respects its primary key returns a view, the view has one entry for each category, in
  the order of the enumeration; its entry for the written category carries the requested
  value, and it is the view the read path gives on the database the call left behind.
\<close>

theorem C7_returned_view:
  assumes "pk_preferences db"
    and "updateUserNotificationPreference e userId ty v ip ua db = (Inr view, db')"
  shows "map type view = [PaymentSuccess, PaymentFailure, PaymentRefund] \<and>
         \<lparr>type = ty, optedOut = v\<rparr> \<in> set view \<and>
         (\<forall>p \<in> set view. type p = ty \<longrightarrow> optedOut p = v) \<and>
         getUserNotificationPreferences e userId db' = (Inr view, db')"
proof -
  from update_Inr[OF assms(2)]
  have tx: "update_transaction e userId ty v ip ua db = Inr db'"
    and rd: "getUserNotificationPreferences e userId db' = (Inr view, db')" by simp_all
  have pk: "pk_preferences db'" using assms(1) tx by (rule update_transaction_pk)
  have st: "stored_opted_out db' userId ty = v" using tx by (rule update_transaction_stored)
  from rd view_of_pk[OF pk, of e userId]
  have view: "view = map (\<lambda>ty. \<lparr>type = ty, optedOut = stored_opted_out db' userId ty\<rparr>) allTypes"
    by (auto split: if_splits)
  have 1: "map type view = [PaymentSuccess, PaymentFailure, PaymentRefund]"
    unfolding view by (simp add: allTypes_def)
  have 2: "\<lparr>type = ty, optedOut = v\<rparr> \<in> set view"
    unfolding view using allTypes_complete[of ty] st by (auto simp: image_iff)
  have 3: "\<forall>p \<in> set view. type p = ty \<longrightarrow> optedOut p = v"
    unfolding view using st by auto
  from 1 2 3 rd show ?thesis by blast
qed

text \<open>An instance: the first opt-out of a fresh user.\<close>

theorem C7_returned_view_witness:
  "pk_preferences db_alice \<and>
   updateUserNotificationPreference (calm id_1 10) alice PaymentSuccess True None None db_alice
     = (Inr [\<lparr>type = PaymentSuccess, optedOut = True\<rparr>,
             \<lparr>type = PaymentFailure, optedOut = False\<rparr>,
             \<lparr>type = PaymentRefund, optedOut = False\<rparr>], db_alice_out) \<and>
   \<lparr>type = PaymentSuccess, optedOut = True\<rparr>
     \<in> set [\<lparr>type = PaymentSuccess, optedOut = True\<rparr>,
            \<lparr>type = PaymentFailure, optedOut = False\<rparr>,
            \<lparr>type = PaymentRefund, optedOut = False\<rparr>]"
proof -
  have pk: "pk_preferences db_alice"
    by (simp add: pk_preferences_def fixture_defs)
  have run: "updateUserNotificationPreference (calm id_1 10) alice PaymentSuccess True None None db_alice
     = (Inr [\<lparr>type = PaymentSuccess, optedOut = True\<rparr>,
             \<lparr>type = PaymentFailure, optedOut = False\<rparr>,
             \<lparr>type = PaymentRefund, optedOut = False\<rparr>], db_alice_out)"
    by (simp add: fixture_defs service_defs)
  from C7_returned_view[OF pk run] pk run show ?thesis by blast
qed

section \<open>Validation in the controller\<close>

text \<open>
  Claim C5. When the \<^verbatim>\<open>type\<close> of the body is not one of the values of the enumeration,
  or \<^verbatim>\<open>optedOut\<close> is not a boolean, the handler answers 400 and the database is
  unchanged. This holds in every environment, also in one where every storage call
  rejects: the answer is produced without any storage call.
\<close>

theorem C5_invalid_input:
  "\<not> includes_type (req_type req) \<or> \<not> is_boolean (req_optedOut req) \<Longrightarrow>
   updateNotificationPreferenceHandler e req db =
     (Status400 ''Malformed input: Invalid notification type or optedOut value.'', db)"
  by (auto simp: updateNotificationPreferenceHandler_def)

text \<open>An instance: an unknown category, while every storage call would reject.\<close>

theorem C5_invalid_input_witness:
  "\<not> includes_type (req_type scenario_E) \<and>
   fault stormy PoolConnect \<and>
   updateNotificationPreferenceHandler stormy scenario_E db_alice_out =
     (Status400 ''Malformed input: Invalid notification type or optedOut value.'', db_alice_out)"
proof -
  have h: "\<not> includes_type (req_type scenario_E)"
    by (simp add: scenario_E_def allTypes_def)
  then have h': "\<not> includes_type (req_type scenario_E) \<or> \<not> is_boolean (req_optedOut scenario_E)"
    by simp
  have f: "fault stormy PoolConnect" by (simp add: stormy_def)
  from C5_invalid_input[OF h', of stormy db_alice_out] h f show ?thesis by blast
qed

section \<open>A user without a row in users\<close>

text \<open>
  Claim C10. Let userId have no row in \<^verbatim>\<open>users\<close>, on a database that respects the
  foreign key, and let the requested value differ from the one in effect. Then the call
  returns an error and changes nothing; when no storage call rejects, the error is
  the foreign key violation of the insert; the handler passes the error on (it does not
  answer 400). The service itself does not look the user up: asking for the value already
  in effect succeeds for this user, with the three defaults.
\<close>

theorem C10_unknown_user:
  assumes "userId \<notin> set (map fst (users db))"
    and "fk_preferences db"
    and "v \<noteq> stored_opted_out db userId ty"
  shows "snd (updateUserNotificationPreference e userId ty v ip ua db) = db \<and>
         isl (fst (updateUserNotificationPreference e userId ty v ip ua db)) \<and>
         ((\<forall>s. \<not> fault e s) \<longrightarrow>
            updateUserNotificationPreference e userId ty v ip ua db
              = (Inl ForeignKeyViolation, db)) \<and>
         (\<forall>req. req_user req = userId \<and> req_type req = JString (type_value ty)
                 \<and> req_optedOut req = JBool v \<longrightarrow>
            (\<exists>err. updateNotificationPreferenceHandler e req db = (NextError err, db))) \<and>
         ((\<forall>s. \<not> fault e s) \<longrightarrow>
            updateUserNotificationPreference e userId ty (stored_opted_out db userId ty) ip ua db
              = (Inr [\<lparr>type = PaymentSuccess, optedOut = False\<rparr>,
                      \<lparr>type = PaymentFailure, optedOut = False\<rparr>,
                      \<lparr>type = PaymentRefund, optedOut = False\<rparr>], db))"
proof -
  note none = no_user_no_rows[OF assms(1,2)]
  have st: "stored_opted_out db userId ty = False"
    by (simp add: stored_map_of none)
  with assms(3) have v: "v = True" by simp
  have tx: "isl (update_transaction e userId ty v ip' ua' db)" for ip' ua'
    using assms(1) none(1)[of "type_value ty"] st v
    by (simp add: update_transaction_def upsert_preference_def Let_def stored_opted_out_def)
  have r: "\<exists>err. updateUserNotificationPreference e userId ty v ip' ua' db = (Inl err, db)"
    for ip' ua'
    using tx[of ip' ua']
    by (cases "update_transaction e userId ty v ip' ua' db")
       (auto simp: updateUserNotificationPreference_def)
  have 1: "snd (updateUserNotificationPreference e userId ty v ip ua db) = db"
    and 2: "isl (fst (updateUserNotificationPreference e userId ty v ip ua db))"
    using r[of ip ua] by auto
  have 3: "updateUserNotificationPreference e userId ty v ip ua db = (Inl ForeignKeyViolation, db)"
    if "\<forall>s. \<not> fault e s"
    using that assms(1) none(1)[of "type_value ty"] st v
    by (simp add: updateUserNotificationPreference_def update_transaction_def
          upsert_preference_def Let_def stored_opted_out_def rollback_and_throw_def)
  have 4: "\<exists>err. updateNotificationPreferenceHandler e req db = (NextError err, db)"
    if "req_user req = userId \<and> req_type req = JString (type_value ty) \<and> req_optedOut req = JBool v"
    for req
  proof -
    have "as_type (req_type req) = ty" using that by (cases ty) simp_all
    moreover have "includes_type (req_type req)" "\<not> falsy (req_type req)"
      using that by (cases ty; simp add: allTypes_def)+
    ultimately show ?thesis using that r[of "req_ip req" "or_null (req_user_agent req)"]
      by (auto simp: updateNotificationPreferenceHandler_def simp del: as_type.simps)
  qed
  have 5: "updateUserNotificationPreference e userId ty (stored_opted_out db userId ty) ip ua db
              = (Inr [\<lparr>type = PaymentSuccess, optedOut = False\<rparr>,
                      \<lparr>type = PaymentFailure, optedOut = False\<rparr>,
                      \<lparr>type = PaymentRefund, optedOut = False\<rparr>], db)"
    if "\<forall>s. \<not> fault e s"
    using that none(2) st
    by (simp add: updateUserNotificationPreference_def update_transaction_def commit_def
          Let_def stored_opted_out_def getUserNotificationPreferences_def prefMap_of_def
          allTypes_def)
  from 1 2 3 4 5 show ?thesis by blast
qed

text \<open>An instance: an unknown user opts out of \<^verbatim>\<open>payment_refund\<close>.\<close>

theorem C10_unknown_user_witness:
  "nobody \<notin> set (map fst (users db_alice_out)) \<and> fk_preferences db_alice_out \<and>
   True \<noteq> stored_opted_out db_alice_out nobody PaymentRefund \<and>
   updateUserNotificationPreference (calm id_2 30) nobody PaymentRefund True None None db_alice_out
     = (Inl ForeignKeyViolation, db_alice_out)"
proof -
  have a: "nobody \<notin> set (map fst (users db_alice_out))"
    by (simp add: fixture_defs)
  have b: "fk_preferences db_alice_out"
    by (simp add: fk_preferences_def fixture_defs)
  have c: "True \<noteq> stored_opted_out db_alice_out nobody PaymentRefund"
    by (simp add: stored_opted_out_def select_opted_out_def oldOptedOut_of_def fixture_defs)
  have d: "\<forall>s. \<not> fault (calm id_2 30) s" by (simp add: calm_def)
  from C10_unknown_user[OF a b c, of "calm id_2 30" None None] a b c d show ?thesis by blast
qed

section \<open>Audit entries and effective changes\<close>

text \<open>
  Claim C2, as stated, fails: a call whose requested value differs from the value in
  effect, but which is rolled back, leaves no audit entry. Here the user has no row in
  \<^verbatim>\<open>users\<close>, so the insert is refused; one call asked for a different value, and the
  audit log has no entry for the key.
\<close>

theorem C2_counterexample:
  "audit_for nobody PaymentSuccess
     (run_calls [call_of id_1 10 nobody PaymentSuccess True] db_alice) = [] \<and>
   requested_changes nobody PaymentSuccess [call_of id_1 10 nobody PaymentSuccess True] db_alice
     = [(False, True)]"
  by (simp add: run_defs audit_for_def transitions_def fixture_defs service_defs)

text \<open>
  Claim C2, amended. For any sequence of calls and any user and category, the
  (old, new) pairs of the audit entries of that key after the sequence are those before
  it followed, in order, by one pair for each call for that key that committed and whose
  requested value differed from the value in effect just before it. A call that changes
  nothing, because the value was the same or because it was rolled back, adds no entry.
\<close>

theorem C2_audit_correspondence:
  "transitions (audit_for userId ty (run_calls cs db)) =
     transitions (audit_for userId ty db) @ committed_changes userId ty cs db"
proof (induction cs arbitrary: db)
  case Nil
  show ?case by simp
next
  case (Cons c cs)
  show ?case
    unfolding run_calls.simps committed_changes.simps Cons.IH step_transitions
    by simp
qed

text \<open>
  An instance: opt out, the same again, opt in with an identifier that is taken (rolled
  back), opt in.
\<close>

theorem C2_audit_correspondence_witness:
  "transitions (audit_for alice PaymentSuccess
     (run_calls [call_of id_1 10 alice PaymentSuccess True,
                 call_of id_2 11 alice PaymentSuccess True,
                 call_of id_1 12 alice PaymentSuccess False,
                 call_of id_2 20 alice PaymentSuccess False] db_alice))
   = [(False, True), (True, False)]"
proof -
  have "committed_changes alice PaymentSuccess
     [call_of id_1 10 alice PaymentSuccess True,
      call_of id_2 11 alice PaymentSuccess True,
      call_of id_1 12 alice PaymentSuccess False,
      call_of id_2 20 alice PaymentSuccess False] db_alice = [(False, True)] @ [] @ [] @ [(True, False)]"
    by (simp add: run_defs audit_for_def transitions_def fixture_defs service_defs)
  moreover have "transitions (audit_for alice PaymentSuccess db_alice) = []"
    by (simp add: audit_for_def transitions_def fixture_defs)
  ultimately show ?thesis
    using C2_audit_correspondence[of alice PaymentSuccess
      "[call_of id_1 10 alice PaymentSuccess True,
        call_of id_2 11 alice PaymentSuccess True,
        call_of id_1 12 alice PaymentSuccess False,
        call_of id_2 20 alice PaymentSuccess False]" db_alice]
    by simp
qed

section \<open>The gate\<close>

text \<open>
  Claim C6. \<^verbatim>\<open>shouldSendNotification\<close> never changes the database. When its two storage
  calls do not reject, it returns \<open>False\<close> exactly when (userId, category) has a row
  with \<^verbatim>\<open>opted_out\<close> true, and \<open>True\<close> otherwise. So, after any sequence of
  calls of the update that starts where the user is not opted out, it returns
  \<open>False\<close> exactly when some call for the key committed a change and the last such
  call set the value to true.
\<close>

theorem C6_gate:
  "snd (shouldSendNotification e userId ty db) = db \<and>
   (\<not> fault e GateConnect \<longrightarrow> \<not> fault e GateSelect \<longrightarrow>
      fst (shouldSendNotification e userId ty db)
        = Inr (map_of (notification_preferences db) (userId, type_value ty) \<noteq> Some True) \<and>
      (\<not> stored_opted_out db userId ty \<longrightarrow>
         (fst (shouldSendNotification e userId ty (run_calls cs db)) = Inr False
          \<longleftrightarrow> committed_changes userId ty cs db \<noteq> []
              \<and> snd (last (committed_changes userId ty cs db)))))"
proof -
  have gate: "shouldSendNotification e userId ty d =
      (if fault e GateConnect then Inl (StorageUnavailable GateConnect)
       else if fault e GateSelect then Inl (StorageUnavailable GateSelect)
       else Inr (\<not> stored_opted_out d userId ty), d)" for d
    by (simp add: shouldSendNotification_def stored_opted_out_def oldOptedOut_of_def
          split: list.splits)
  have m: "(\<not> stored_opted_out db userId ty)
            = (map_of (notification_preferences db) (userId, type_value ty) \<noteq> Some True)"
    by (auto simp: stored_map_of split: option.splits)
  show ?thesis
    by (simp add: gate m[symmetric] stored_after_run)
qed

text \<open>An instance: a fresh user, before and after opting out.\<close>

theorem C6_gate_witness:
  "\<not> fault (calm id_1 0) GateConnect \<and> \<not> fault (calm id_1 0) GateSelect \<and>
   \<not> stored_opted_out db_alice alice PaymentSuccess \<and>
   committed_changes alice PaymentSuccess [call_of id_1 10 alice PaymentSuccess True] db_alice
     = [(False, True)] \<and>
   fst (shouldSendNotification (calm id_1 0) alice PaymentSuccess
          (run_calls [call_of id_1 10 alice PaymentSuccess True] db_alice)) = Inr False \<and>
   fst (shouldSendNotification (calm id_1 0) alice PaymentSuccess db_alice) = Inr True"
proof -
  have a: "\<not> fault (calm id_1 0) GateConnect" "\<not> fault (calm id_1 0) GateSelect"
    by (simp_all add: calm_def)
  have b: "\<not> stored_opted_out db_alice alice PaymentSuccess"
    by (simp add: run_defs fixture_defs service_defs)
  have c: "committed_changes alice PaymentSuccess [call_of id_1 10 alice PaymentSuccess True] db_alice
     = [(False, True)]"
    by (simp add: run_defs fixture_defs service_defs)
  have d: "map_of (notification_preferences db_alice) (alice, type_value PaymentSuccess) = None"
    by (simp add: fixture_defs)
  from C6_gate[of "calm id_1 0" alice PaymentSuccess db_alice
         "[call_of id_1 10 alice PaymentSuccess True]"] a b c d
  show ?thesis by simp
qed

section \<open>Identifiers of audit entries\<close>

text \<open>
  Claim C8, as stated, fails: the identifier is what \<^verbatim>\<open>uuidv4()\<close> returns, and a later
  entry may get the smaller one. Two changes of the same preference, the second drawing
  an identifier below the first.
\<close>

theorem C8_counterexample:
  "map id' (audit_logs
     (run_calls [call_of id_1 10 alice PaymentSuccess True,
                 call_of id_2 20 alice PaymentSuccess False] db_alice)) = [id_1, id_2] \<and>
   id_2 < id_1"
  by (simp add: run_defs fixture_defs service_defs)

text \<open>
  Claim C8, amended. Every audit entry gets, when it is created, the identifier that
  \<^verbatim>\<open>uuidv4()\<close> returned for it, and the identifiers in the log stay pairwise distinct:
  a call either leaves the log as it was or appends one entry whose identifier was not in
  the log.
\<close>

theorem C8_ids_unique:
  assumes "pk_audit db"
  shows "pk_audit (snd (updateUserNotificationPreference e userId ty v ip ua db)) \<and>
         (audit_logs (snd (updateUserNotificationPreference e userId ty v ip ua db))
            = audit_logs db \<or>
          uuidv4 e \<notin> set (map id' (audit_logs db)) \<and>
          map id' (audit_logs (snd (updateUserNotificationPreference e userId ty v ip ua db)))
            = map id' (audit_logs db) @ [uuidv4 e])"
proof (cases "\<not> fault e PoolConnect \<and> \<not> isl (update_transaction e userId ty v ip ua db)")
  case True
  then obtain w where w: "update_transaction e userId ty v ip ua db = Inr w"
    by (cases "update_transaction e userId ty v ip ua db") auto
  with True have s: "snd (updateUserNotificationPreference e userId ty v ip ua db) = w"
    by (simp add: update_snd)
  from update_transaction_Inr[OF w] assms show ?thesis
    unfolding s by (auto simp: pk_audit_def new_audit_entry_def)
next
  case False
  then have "snd (updateUserNotificationPreference e userId ty v ip ua db) = db"
    by (auto simp: update_snd split: sum.splits)
  with assms show ?thesis by simp
qed

text \<open>An instance: a second change, with a second identifier.\<close>

theorem C8_ids_unique_witness:
  "pk_audit db_alice_out \<and>
   map id' (audit_logs (snd (updateUserNotificationPreference (calm id_2 20) alice PaymentSuccess
                               False None None db_alice_out))) = [id_1, id_2] \<and>
   pk_audit (snd (updateUserNotificationPreference (calm id_2 20) alice PaymentSuccess
                    False None None db_alice_out))"
proof -
  have pk: "pk_audit db_alice_out"
    by (simp add: pk_audit_def fixture_defs)
  have run: "map id' (audit_logs (snd (updateUserNotificationPreference (calm id_2 20) alice
               PaymentSuccess False None None db_alice_out))) = [id_1, id_2]"
    by (simp add: fixture_defs service_defs)
  from C8_ids_unique[OF pk, of "calm id_2 20" alice PaymentSuccess False None None] pk run
  show ?thesis by blast
qed

end
